theory Spec2Isabelle
  imports Main "HOL-Library.Multiset"
begin

section \<open>Python values\<close>

text \<open>
  A Python \<open>str\<close> is a sequence of Unicode code points. Literals of the source are
  written \<open>u ''...''\<close>.
\<close>

type_synonym pystr = "nat list"

definition u :: "string \<Rightarrow> pystr" where
  "u s = map of_char s"

text \<open>
  \<open>str.strip()\<close> without argument removes the code points for which \<open>str.isspace\<close>
  holds from both ends: U+0009..U+000D, U+001C..U+0020, U+0085, U+00A0, U+1680,
  U+2000..U+200A, U+2028, U+2029, U+202F, U+205F and U+3000.
\<close>

definition is_space :: "nat \<Rightarrow> bool" where
  "is_space c \<longleftrightarrow>
     (9 \<le> c \<and> c \<le> 13) \<or> (28 \<le> c \<and> c \<le> 32) \<or> c = 133 \<or> c = 160 \<or> c = 5760 \<or>
     (8192 \<le> c \<and> c \<le> 8202) \<or> c = 8232 \<or> c = 8233 \<or> c = 8239 \<or> c = 8287 \<or> c = 12288"

definition strip :: "pystr \<Rightarrow> pystr" where
  "strip s = rev (dropWhile is_space (rev (dropWhile is_space s)))"

text \<open>
  The values that \<open>request.get_json()\<close> and \<open>response.json()\<close> decode a JSON text to.
  A float is a dyadic number \<open>m * 2 ^ e\<close>, an infinity or NaN. A \<open>dict\<close> is an
  association list read with \<open>map_of\<close>.
\<close>

datatype pyfloat = Dyadic int int | Infinity bool | NaN

datatype pyval =
    PNone
  | PBool bool
  | PInt int
  | PFloat pyfloat
  | PStr pystr
  | PList "pyval list"
  | PDict "(pystr \<times> pyval) list"

fun float_eq_int :: "pyfloat \<Rightarrow> int \<Rightarrow> bool" where
  "float_eq_int (Dyadic m e) n =
     (if 0 \<le> e then m * 2 ^ nat e = n else m = n * 2 ^ nat (- e))"
| "float_eq_int (Infinity _) n = False"
| "float_eq_int NaN n = False"

text \<open>\<open>v == n\<close> for an int literal \<open>n\<close>; \<open>True == 1\<close> and \<open>False == 0\<close> in Python.\<close>

fun eq_int :: "pyval \<Rightarrow> int \<Rightarrow> bool" where
  "eq_int (PInt i) n = (i = n)"
| "eq_int (PBool b) n = ((if b then 1 else 0) = n)"
| "eq_int (PFloat f) n = float_eq_int f n"
| "eq_int _ n = False"

text \<open>The truth value of \<open>if v\<close>.\<close>

fun truthy :: "pyval \<Rightarrow> bool" where
  "truthy PNone = False"
| "truthy (PBool b) = b"
| "truthy (PInt i) = (i \<noteq> 0)"
| "truthy (PFloat (Dyadic m e)) = (m \<noteq> 0)"
| "truthy (PFloat _) = True"
| "truthy (PStr s) = (s \<noteq> [])"
| "truthy (PList xs) = (xs \<noteq> [])"
| "truthy (PDict kvs) = (kvs \<noteq> [])"

fun type_name :: "pyval \<Rightarrow> pystr" where
  "type_name PNone = u ''NoneType''"
| "type_name (PBool _) = u ''bool''"
| "type_name (PInt _) = u ''int''"
| "type_name (PFloat _) = u ''float''"
| "type_name (PStr _) = u ''str''"
| "type_name (PList _) = u ''list''"
| "type_name (PDict _) = u ''dict''"

section \<open>Exceptions\<close>

text \<open>
  An exception is an instance of \<open>Exception\<close> with its \<open>str(e)\<close>. Its class is the
  first of the except clauses of \<open>translate\<close> that it matches:
  \<open>requests.exceptions.Timeout\<close>, then \<open>requests.exceptions.ConnectionError\<close>, then
  \<open>Exception\<close>. (\<open>ConnectTimeout\<close>, which derives from both, is a \<open>Timeout\<close>.)
  \<open>KeyboardInterrupt\<close>, \<open>SystemExit\<close> and \<open>GeneratorExit\<close> are not instances of
  \<open>Exception\<close> and are not modelled.
\<close>

datatype exn_class = Timeout | ConnectionError | OtherException

datatype exn = Exn (exn_cls: exn_class) (str_of: pystr)

definition bind_exn :: "exn + 'a \<Rightarrow> ('a \<Rightarrow> exn + 'b) \<Rightarrow> exn + 'b" where
  "bind_exn m f = (case m of Inl e \<Rightarrow> Inl e | Inr x \<Rightarrow> f x)"

text \<open>\<open>'T' object has no attribute 'a'\<close>; 39 is the apostrophe.\<close>

definition attribute_error :: "pyval \<Rightarrow> string \<Rightarrow> exn" where
  "attribute_error v a =
     Exn OtherException
       ([39] @ type_name v @ [39] @ u '' object has no attribute '' @ [39] @ u a @ [39])"

text \<open>\<open>v.get(k, d)\<close>: of the decoded values only a \<open>dict\<close> has \<open>get\<close>.\<close>

fun dict_get :: "pyval \<Rightarrow> pystr \<Rightarrow> pyval \<Rightarrow> exn + pyval" where
  "dict_get (PDict kvs) k d = Inr (case map_of kvs k of None \<Rightarrow> d | Some v \<Rightarrow> v)"
| "dict_get v k d = Inl (attribute_error v ''get'')"

text \<open>\<open>v.strip()\<close>: of the decoded values only a \<open>str\<close> has \<open>strip\<close>.\<close>

fun str_strip :: "pyval \<Rightarrow> exn + pystr" where
  "str_strip (PStr s) = Inr (strip s)"
| "str_strip v = Inl (attribute_error v ''strip'')"

section \<open>The collaborators and the state\<close>

record http_request =
  req_method :: string
  req_url :: string
  req_params :: "(pystr \<times> pystr) list"
  req_json :: "(pystr \<times> pystr) list"
  req_headers :: "(pystr \<times> pystr) list"
  req_timeout :: nat

record http_response =
  status_code :: int
  json :: "exn + pyval"

text \<open>The table \<open>translations\<close> of \<open>models.py\<close>.\<close>

record translation =
  row_id :: nat
  user_id :: "pystr option"
  original_text :: pystr
  translated_text :: pystr
  service_used :: pystr
  created_at :: int

datatype log_level = INFO | ERROR

text \<open>
  What a request can change: the rows of the table, the application log, and the
  outbound HTTP calls made so far.
\<close>

record world =
  db :: "translation list"
  logs :: "(log_level \<times> pystr) list"
  net :: "http_request list"

text \<open>
  What the collaborators do during one request:
  \<^item> \<open>get_json\<close>: \<open>request.get_json()\<close>, the decoded body or the exception it raises;
  \<^item> \<open>http\<close>: \<open>requests.get\<close> and \<open>requests.post\<close>, a response or the exception raised;
  \<^item> \<open>api_key\<close>: \<open>os.environ.get("LIBRETRANSLATE_API_KEY")\<close>;
  \<^item> \<open>current_user\<close>: reading \<open>current_user.is_authenticated\<close> raises, or the caller is
    anonymous (\<open>None\<close>), or authenticated with \<open>current_user.id\<close>;
  \<^item> \<open>db_failure\<close>: the exception, if any, that constructing, adding and committing the
    row raises (a request commits at most once);
  \<^item> \<open>query_failure\<close>: the exception, if any, that the query of \<open>history\<close> raises;
  \<^item> \<open>now\<close>: \<open>datetime.now()\<close>, the default of \<open>created_at\<close>.
\<close>

record env =
  get_json :: "exn + pyval"
  http :: "http_request \<Rightarrow> exn + http_response"
  api_key :: "pystr option"
  current_user :: "exn + pystr option"
  db_failure :: "exn option"
  query_failure :: "exn option"
  now :: int

definition log_info :: "string \<Rightarrow> world \<Rightarrow> world" where
  "log_info msg w = w\<lparr>logs := logs w @ [(INFO, u msg)]\<rparr>"

definition log_error :: "string \<Rightarrow> exn \<Rightarrow> world \<Rightarrow> world" where
  "log_error prefix e w = w\<lparr>logs := logs w @ [(ERROR, u prefix @ str_of e)]\<rparr>"

section \<open>The provider clients\<close>

definition MYMEMORY_API_URL :: string where
  "MYMEMORY_API_URL = ''https://api.mymemory.translated.net/get''"

definition LIBRETRANSLATE_API_URL :: string where
  "LIBRETRANSLATE_API_URL = ''https://libretranslate.com/translate''"

definition mymemory_request :: "pystr \<Rightarrow> http_request" where
  "mymemory_request text =
     \<lparr>req_method = ''GET'', req_url = MYMEMORY_API_URL,
      req_params = [(u ''q'', text), (u ''langpair'', u ''en|as'')],
      req_json = [], req_headers = [], req_timeout = 10\<rparr>"

text \<open>Lines 84 to 90 of \<open>app.py\<close>: what the client makes of a response.\<close>

definition mymemory_result :: "http_response \<Rightarrow> exn + pystr option" where
  "mymemory_result response =
     (if status_code response = 200 then
        bind_exn (json response) (\<lambda>result.
        bind_exn (dict_get result (u ''responseStatus'') PNone) (\<lambda>response_status.
          if eq_int response_status 200 then
            bind_exn (dict_get result (u ''responseData'') (PDict [])) (\<lambda>response_data.
            bind_exn (dict_get response_data (u ''translatedText'') (PStr [])) (\<lambda>translated_text.
              if truthy translated_text
              then bind_exn (str_strip translated_text) (\<lambda>s. Inr (Some s))
              else Inr None))
          else Inr None))
      else Inr None)"

definition translate_with_mymemory :: "env \<Rightarrow> pystr \<Rightarrow> world \<Rightarrow> pystr option \<times> world" where
  "translate_with_mymemory env text w =
     (let request = mymemory_request text;
          w1 = w\<lparr>net := net w @ [request]\<rparr>
      in case bind_exn (http env request) mymemory_result of
           Inl e \<Rightarrow> (None, log_error ''MyMemory API error: '' e w1)
         | Inr r \<Rightarrow> (r, w1))"

definition libretranslate_request :: "pystr option \<Rightarrow> pystr \<Rightarrow> http_request" where
  "libretranslate_request key text =
     \<lparr>req_method = ''POST'', req_url = LIBRETRANSLATE_API_URL,
      req_params = [],
      req_json = [(u ''q'', text), (u ''source'', u ''en''), (u ''target'', u ''as''),
                  (u ''format'', u ''text'')],
      req_headers = (u ''Content-Type'', u ''application/json'') #
        (case key of
           None \<Rightarrow> []
         | Some k \<Rightarrow> if k \<noteq> [] then [(u ''Authorization'', u ''Bearer '' @ k)] else []),
      req_timeout = 10\<rparr>"

text \<open>Lines 117 to 122 of \<open>app.py\<close>.\<close>

definition libretranslate_result :: "http_response \<Rightarrow> exn + pystr option" where
  "libretranslate_result response =
     (if status_code response = 200 then
        bind_exn (json response) (\<lambda>result.
        bind_exn (dict_get result (u ''translatedText'') (PStr [])) (\<lambda>translated_text.
          if truthy translated_text
          then bind_exn (str_strip translated_text) (\<lambda>s. Inr (Some s))
          else Inr None))
      else Inr None)"

definition translate_with_libretranslate :: "env \<Rightarrow> pystr \<Rightarrow> world \<Rightarrow> pystr option \<times> world" where
  "translate_with_libretranslate env text w =
     (let request = libretranslate_request (api_key env) text;
          w1 = w\<lparr>net := net w @ [request]\<rparr>
      in case bind_exn (http env request) libretranslate_result of
           Inl e \<Rightarrow> (None, log_error ''LibreTranslate API error: '' e w1)
         | Inr r \<Rightarrow> (r, w1))"

section \<open>The handler of POST /translate\<close>

record response =
  status :: int
  body :: "(pystr \<times> pyval) list"

definition error_response :: "int \<Rightarrow> string \<Rightarrow> response" where
  "error_response code msg =
     \<lparr>status = code, body = [(u ''success'', PBool False), (u ''error'', PStr (u msg))]\<rparr>"

definition success_response :: "pystr \<Rightarrow> pystr \<Rightarrow> string \<Rightarrow> response" where
  "success_response translated text service =
     \<lparr>status = 200,
      body = [(u ''success'', PBool True), (u ''translated_text'', PStr translated),
              (u ''original_text'', PStr text), (u ''service'', PStr (u service))]\<rparr>"

text \<open>The storage assigns the primary key: one more than the largest in the table.\<close>

definition next_id :: "translation list \<Rightarrow> nat" where
  "next_id rows = Suc (fold max (map row_id rows) 0)"

text \<open>
  The inner \<open>try\<close> of lines 147 to 158, and again of lines 174 to 185, for an
  authenticated caller: the row is added and committed, or the exception is logged.
\<close>

definition save_history :: "env \<Rightarrow> pystr \<Rightarrow> pystr \<Rightarrow> pystr \<Rightarrow> string \<Rightarrow> world \<Rightarrow> world" where
  "save_history env uid text translated service w =
     (case db_failure env of
        Some e \<Rightarrow> log_error ''Failed to save translation history: '' e w
      | None \<Rightarrow>
          w\<lparr>db := db w @
            [\<lparr>row_id = next_id (db w), user_id = Some uid, original_text = text,
              translated_text = translated, service_used = u service,
              created_at = now env\<rparr>]\<rparr>)"

text \<open>
  Lines 145 to 165, and again lines 172 to 192 with the other service name: the body
  of \<open>if translated_text:\<close>.
\<close>

definition on_success ::
  "env \<Rightarrow> pystr \<Rightarrow> pystr \<Rightarrow> string \<Rightarrow> world \<Rightarrow> (exn + response) \<times> world" where
  "on_success env text translated service w =
     (case current_user env of
        Inl e \<Rightarrow> (Inl e, w)
      | Inr None \<Rightarrow> (Inr (success_response translated text service), w)
      | Inr (Some uid) \<Rightarrow>
          (Inr (success_response translated text service),
           save_history env uid text translated service w))"

text \<open>Lines 195 to 198: the response when both providers gave nothing.\<close>

definition unavailable :: response where
  "unavailable = error_response 503
     ''Translation services are currently unavailable. Please try again later.''"

text \<open>Lines 167 to 198: the second provider, once the first gave nothing.\<close>

definition try_libretranslate :: "env \<Rightarrow> pystr \<Rightarrow> world \<Rightarrow> (exn + response) \<times> world" where
  "try_libretranslate env text w =
     (case translate_with_libretranslate env text
             (log_info ''MyMemory failed, attempting LibreTranslate API'' w) of
        (Some translated, w') \<Rightarrow>
          if translated \<noteq> [] then on_success env text translated ''LibreTranslate'' w'
          else (Inr unavailable, w')
      | (None, w') \<Rightarrow> (Inr unavailable, w'))"

text \<open>Lines 131 to 198: the body of the outer \<open>try\<close>.\<close>

definition translate_body :: "env \<Rightarrow> world \<Rightarrow> (exn + response) \<times> world" where
  "translate_body env w =
     (case bind_exn (get_json env) (\<lambda>data.
           bind_exn (dict_get data (u ''text'') (PStr [])) str_strip) of
        Inl e \<Rightarrow> (Inl e, w)
      | Inr text \<Rightarrow>
          if text = [] then
            (Inr (error_response 400 ''Please enter some text to translate''), w)
          else
            (case translate_with_mymemory env text
                    (log_info ''Attempting translation with MyMemory API'' w) of
               (Some translated, w') \<Rightarrow>
                 if translated \<noteq> [] then on_success env text translated ''MyMemory'' w'
                 else try_libretranslate env text w'
             | (None, w') \<Rightarrow> try_libretranslate env text w'))"

text \<open>Lines 200 to 215: the except clauses, in their order.\<close>

definition on_exception :: "exn \<Rightarrow> world \<Rightarrow> response \<times> world" where
  "on_exception e w =
     (case exn_cls e of
        Timeout \<Rightarrow>
          (error_response 504 ''Translation request timed out. Please try again.'', w)
      | ConnectionError \<Rightarrow>
          (error_response 503
             ''Unable to connect to translation service. Please check your internet connection.'', w)
      | OtherException \<Rightarrow>
          (error_response 500 ''An unexpected error occurred. Please try again.'',
           log_error ''Translation error: '' e w))"

definition translate :: "env \<Rightarrow> world \<Rightarrow> response \<times> world" where
  "translate env w =
     (case translate_body env w of
        (Inr r, w') \<Rightarrow> (r, w')
      | (Inl e, w') \<Rightarrow> on_exception e w')"

section \<open>The handler of GET /history\<close>

datatype page = Redirect string | Render string "translation list"

text \<open>
  \<open>filter_by(user_id=...)\<close>, \<open>order_by(created_at.desc())\<close>, \<open>limit(50)\<close>. Rows of equal
  \<open>created_at\<close> keep the order of the table. The view has no \<open>try\<close>: an exception
  raised by reading the session or by the query leaves it.
\<close>

definition history :: "env \<Rightarrow> world \<Rightarrow> exn + page" where
  "history env w =
     (case current_user env of
        Inl e \<Rightarrow> Inl e
      | Inr None \<Rightarrow> Inr (Redirect ''replit_auth.login'')
      | Inr (Some uid) \<Rightarrow>
          (case query_failure env of
             Some e \<Rightarrow> Inl e
           | None \<Rightarrow>
               Inr (Render ''history.html''
                 (take 50 (sort_key (\<lambda>t. - created_at t)
                    (filter (\<lambda>t. user_id t = Some uid) (db w)))))))"

section \<open>Example requests\<close>

text \<open>
  Concrete collaborators for the scenarios of the specification: the request body
  \<open>{"text": " Hello "}\<close>, provider replies, and the Assamese greeting of the first
  scenario as code points.
\<close>

definition w0 :: world where
  "w0 = \<lparr>db = [], logs = [], net = []\<rparr>"

definition namaskar :: pystr where
  "namaskar = [2472, 2478, 2488, 2509, 2453, 2494, 2544]"

definition mymemory_ok :: "pystr \<Rightarrow> exn + http_response" where
  "mymemory_ok t =
     Inr \<lparr>status_code = 200,
          json = Inr (PDict [(u ''responseStatus'', PInt 200),
                   (u ''responseData'', PDict [(u ''translatedText'', PStr t)])])\<rparr>"

definition libretranslate_ok :: "pystr \<Rightarrow> exn + http_response" where
  "libretranslate_ok t =
     Inr \<lparr>status_code = 200, json = Inr (PDict [(u ''translatedText'', PStr t)])\<rparr>"

definition timed_out :: "exn + http_response" where
  "timed_out = Inl (Exn Timeout (u ''Read timed out. (read timeout=10)''))"

definition not_json :: "exn + http_response" where
  "not_json = Inr \<lparr>status_code = 200, json = Inl (Exn OtherException (u ''Expecting value''))\<rparr>"

definition storage_down :: exn where
  "storage_down = Exn OtherException (u ''connection to server closed'')"

definition example_env ::
  "exn + pyval \<Rightarrow> exn + http_response \<Rightarrow> exn + http_response \<Rightarrow> exn + pystr option \<Rightarrow>
   exn option \<Rightarrow> env" where
  "example_env request a b cu f =
     \<lparr>get_json = request,
      http = (\<lambda>r. if req_url r = MYMEMORY_API_URL then a else b),
      api_key = None, current_user = cu, db_failure = f, query_failure = None,
      now = 1000\<rparr>"

definition hello :: "exn + pyval" where
  "hello = Inr (PDict [(u ''text'', PStr (u '' Hello ''))])"

definition example_rows :: "translation list" where
  "example_rows =
     [\<lparr>row_id = 1, user_id = Some (u ''42''), original_text = u ''Hello'',
       translated_text = namaskar, service_used = u ''MyMemory'', created_at = 10\<rparr>,
      \<lparr>row_id = 2, user_id = Some (u ''7''), original_text = u ''Hello'',
       translated_text = namaskar, service_used = u ''LibreTranslate'', created_at = 20\<rparr>,
      \<lparr>row_id = 3, user_id = Some (u ''42''), original_text = u ''Hi'',
       translated_text = namaskar, service_used = u ''MyMemory'', created_at = 30\<rparr>,
      \<lparr>row_id = 4, user_id = None, original_text = u ''Hi'',
       translated_text = namaskar, service_used = u ''MyMemory'', created_at = 40\<rparr>]"

section \<open>The provider clients: what they return and log\<close>

lemma mymemory_net:
  "net (snd (translate_with_mymemory env text w)) = net w @ [mymemory_request text]"
  by (simp add: translate_with_mymemory_def log_error_def Let_def split: sum.splits)

lemma mymemory_db:
  "db (snd (translate_with_mymemory env text w)) = db w"
  by (simp add: translate_with_mymemory_def log_error_def Let_def split: sum.splits)

lemma mymemory_fst:
  "fst (translate_with_mymemory env text w) =
     (case bind_exn (http env (mymemory_request text)) mymemory_result of
        Inl e \<Rightarrow> None | Inr r \<Rightarrow> r)"
  by (simp add: translate_with_mymemory_def Let_def split: sum.splits)

lemma libretranslate_net:
  "net (snd (translate_with_libretranslate env text w)) =
     net w @ [libretranslate_request (api_key env) text]"
  by (simp add: translate_with_libretranslate_def log_error_def Let_def split: sum.splits)

lemma libretranslate_db:
  "db (snd (translate_with_libretranslate env text w)) = db w"
  by (simp add: translate_with_libretranslate_def log_error_def Let_def split: sum.splits)

lemma libretranslate_fst:
  "fst (translate_with_libretranslate env text w) =
     (case bind_exn (http env (libretranslate_request (api_key env) text)) libretranslate_result of
        Inl e \<Rightarrow> None | Inr r \<Rightarrow> r)"
  by (simp add: translate_with_libretranslate_def Let_def split: sum.splits)

lemma dict_get_Inr:
  "dict_get v k d = Inr x \<longleftrightarrow>
     (\<exists>kvs. v = PDict kvs \<and> x = (case map_of kvs k of None \<Rightarrow> d | Some y \<Rightarrow> y))"
  by (cases v) auto

lemma str_strip_Inr: "str_strip v = Inr x \<longleftrightarrow> (\<exists>s. v = PStr s \<and> x = strip s)"
  by (cases v) auto

lemma mymemory_result_Some:
  "mymemory_result response = Inr (Some v) \<longleftrightarrow>
     (\<exists>result rs data s.
        status_code response = 200 \<and> json response = Inr (PDict result) \<and>
        map_of result (u ''responseStatus'') = Some rs \<and> eq_int rs 200 \<and>
        map_of result (u ''responseData'') = Some (PDict data) \<and>
        map_of data (u ''translatedText'') = Some (PStr s) \<and> s \<noteq> [] \<and> v = strip s)"
  (is "?L = ?R")
proof
  assume ?L
  then show ?R
    apply (simp add: mymemory_result_def bind_exn_def split: if_splits sum.splits)
    apply (auto simp: dict_get_Inr str_strip_Inr split: option.splits)
    done
next
  assume ?R
  then show ?L
    by (auto simp: mymemory_result_def bind_exn_def)
qed

lemma libretranslate_result_Some:
  "libretranslate_result response = Inr (Some v) \<longleftrightarrow>
     (\<exists>result s.
        status_code response = 200 \<and> json response = Inr (PDict result) \<and>
        map_of result (u ''translatedText'') = Some (PStr s) \<and> s \<noteq> [] \<and> v = strip s)"
  (is "?L = ?R")
proof
  assume ?L
  then show ?R
    apply (simp add: libretranslate_result_def bind_exn_def split: if_splits sum.splits)
    apply (auto simp: dict_get_Inr str_strip_Inr split: option.splits)
    done
next
  assume ?R
  then show ?L
    by (auto simp: libretranslate_result_def bind_exn_def)
qed

lemmas ex_defs = example_env_def hello_def mymemory_ok_def libretranslate_ok_def timed_out_def not_json_def
  storage_down_def w0_def namaskar_def
lemmas req_defs = mymemory_request_def libretranslate_request_def MYMEMORY_API_URL_def LIBRETRANSLATE_API_URL_def
lemmas client_defs = translate_with_mymemory_def translate_with_libretranslate_def mymemory_result_def
  libretranslate_result_def bind_exn_def log_error_def log_info_def
lemmas handler_defs = translate_def translate_body_def try_libretranslate_def on_success_def save_history_def
  on_exception_def error_response_def success_response_def next_id_def

lemmas eval_defs = ex_defs req_defs client_defs handler_defs u_def strip_def is_space_def

lemma hello_parsed:
  "get_json (example_env hello a b cu f) = Inr (PDict [(u ''text'', PStr (u '' Hello ''))])"
  "dict_get (PDict [(u ''text'', PStr (u '' Hello ''))]) (u ''text'') (PStr []) =
     Inr (PStr (u '' Hello ''))"
  "str_strip (PStr (u '' Hello '')) = Inr (u ''Hello'')"
  "strip (u '' Hello '') = u ''Hello''"
  "u ''Hello'' \<noteq> []"
  by (simp_all add: example_env_def hello_def u_def strip_def is_space_def)

text \<open>
  What the clients return: a string exactly when the call returns, the status is 200,
  the body decodes to an object (for MyMemory with \<open>responseStatus\<close> equal to 200 and
  an object \<open>responseData\<close>) and the translated-text field is a non-empty string; the
  string returned is the field trimmed.
\<close>

lemma provider_client_result:
  "(fst (translate_with_mymemory env text w) = Some v \<longleftrightarrow>
      (\<exists>response result rs data s.
         http env (mymemory_request text) = Inr response \<and>
         status_code response = 200 \<and> json response = Inr (PDict result) \<and>
         map_of result (u ''responseStatus'') = Some rs \<and> eq_int rs 200 \<and>
         map_of result (u ''responseData'') = Some (PDict data) \<and>
         map_of data (u ''translatedText'') = Some (PStr s) \<and> s \<noteq> [] \<and> v = strip s)) \<and>
   (fst (translate_with_libretranslate env text w) = Some v \<longleftrightarrow>
      (\<exists>response result s.
         http env (libretranslate_request (api_key env) text) = Inr response \<and>
         status_code response = 200 \<and> json response = Inr (PDict result) \<and>
         map_of result (u ''translatedText'') = Some (PStr s) \<and> s \<noteq> [] \<and> v = strip s))"
proof
  show "fst (translate_with_mymemory env text w) = Some v \<longleftrightarrow>
      (\<exists>response result rs data s.
         http env (mymemory_request text) = Inr response \<and>
         status_code response = 200 \<and> json response = Inr (PDict result) \<and>
         map_of result (u ''responseStatus'') = Some rs \<and> eq_int rs 200 \<and>
         map_of result (u ''responseData'') = Some (PDict data) \<and>
         map_of data (u ''translatedText'') = Some (PStr s) \<and> s \<noteq> [] \<and> v = strip s)"
  proof (cases "http env (mymemory_request text)")
    case (Inl e)
    then show ?thesis by (simp add: mymemory_fst bind_exn_def)
  next
    case (Inr response)
    have "fst (translate_with_mymemory env text w) = Some v \<longleftrightarrow>
            mymemory_result response = Inr (Some v)"
      using Inr by (simp add: mymemory_fst bind_exn_def split: sum.splits)
    then show ?thesis
      using Inr by (simp add: mymemory_result_Some)
  qed
next
  show "fst (translate_with_libretranslate env text w) = Some v \<longleftrightarrow>
      (\<exists>response result s.
         http env (libretranslate_request (api_key env) text) = Inr response \<and>
         status_code response = 200 \<and> json response = Inr (PDict result) \<and>
         map_of result (u ''translatedText'') = Some (PStr s) \<and> s \<noteq> [] \<and> v = strip s)"
  proof (cases "http env (libretranslate_request (api_key env) text)")
    case (Inl e)
    then show ?thesis by (simp add: libretranslate_fst bind_exn_def)
  next
    case (Inr response)
    have "fst (translate_with_libretranslate env text w) = Some v \<longleftrightarrow>
            libretranslate_result response = Inr (Some v)"
      using Inr by (simp add: libretranslate_fst bind_exn_def split: sum.splits)
    then show ?thesis
      using Inr by (simp add: libretranslate_result_Some)
  qed
qed

text \<open>
  The same at concrete replies: \<open>" namaskar"\<close> from MyMemory and \<open>"ok "\<close> from
  LibreTranslate come back trimmed.
\<close>

lemma provider_client_result_example:
  "fst (translate_with_mymemory
          (example_env hello (mymemory_ok (32 # namaskar)) (libretranslate_ok (u ''ok '')) (Inr None) None)
          (u ''Hello'') w0) = Some namaskar \<and>
   fst (translate_with_libretranslate
          (example_env hello (mymemory_ok (32 # namaskar)) (libretranslate_ok (u ''ok '')) (Inr None) None)
          (u ''Hello'') w0) = Some (u ''ok'')"
  using provider_client_result
    [of "example_env hello (mymemory_ok (32 # namaskar)) (libretranslate_ok (u ''ok '')) (Inr None) None"
        "u ''Hello''" w0 namaskar]
    provider_client_result
    [of "example_env hello (mymemory_ok (32 # namaskar)) (libretranslate_ok (u ''ok '')) (Inr None) None"
        "u ''Hello''" w0 "u ''ok''"]
  by (simp add: ex_defs req_defs u_def strip_def is_space_def)

text \<open>
  \<^bold>\<open>C3\<close>. The claim has each client return \<open>None\<close> when the translated-text field
  is empty or whitespace only after trimming. Lines 88 and 120 test the field before
  they trim it: an empty field gives \<open>None\<close>, but for a field of two spaces, which is
  empty after trimming, both clients return the empty string.
\<close>

theorem blank_translation_not_none:
  "strip (u ''  '') = [] \<and>
   fst (translate_with_mymemory
          (example_env hello (mymemory_ok []) timed_out (Inr None) None)
          (u ''Hello'') w0) = None \<and>
   fst (translate_with_mymemory
          (example_env hello (mymemory_ok (u ''  '')) timed_out (Inr None) None)
          (u ''Hello'') w0) = Some [] \<and>
   fst (translate_with_libretranslate
          (example_env hello timed_out (libretranslate_ok []) (Inr None) None)
          (u ''Hello'') w0) = None \<and>
   fst (translate_with_libretranslate
          (example_env hello timed_out (libretranslate_ok (u ''  '')) (Inr None) None)
          (u ''Hello'') w0) = Some []"
  by (simp add: ex_defs req_defs client_defs u_def strip_def is_space_def)

text \<open>
  \<^bold>\<open>C4\<close>. When the HTTP call raises an exception (a timeout, a connection error or
  any other), or the status is 200 and decoding the body raises one, the client
  returns \<open>None\<close> to its caller and appends one error entry to the log, made of the
  provider's name and \<open>str(e)\<close>; nothing else changes but the record of the call.
\<close>

theorem provider_failure_logged:
  "(http env (mymemory_request text) = Inl e \<or>
      (\<exists>r. http env (mymemory_request text) = Inr r \<and> status_code r = 200 \<and> json r = Inl e)
    \<longrightarrow> translate_with_mymemory env text w =
          (None, w\<lparr>net := net w @ [mymemory_request text],
                   logs := logs w @ [(ERROR, u ''MyMemory API error: '' @ str_of e)]\<rparr>)) \<and>
   (http env (libretranslate_request (api_key env) text) = Inl e \<or>
      (\<exists>r. http env (libretranslate_request (api_key env) text) = Inr r \<and>
           status_code r = 200 \<and> json r = Inl e)
    \<longrightarrow> translate_with_libretranslate env text w =
          (None, w\<lparr>net := net w @ [libretranslate_request (api_key env) text],
                   logs := logs w @ [(ERROR, u ''LibreTranslate API error: '' @ str_of e)]\<rparr>))"
  by (auto simp: translate_with_mymemory_def translate_with_libretranslate_def Let_def
        mymemory_result_def libretranslate_result_def bind_exn_def log_error_def)

text \<open>
  A read timeout at MyMemory and an undecodable body at LibreTranslate.
\<close>

theorem provider_failure_logged_witness:
  "translate_with_mymemory (example_env hello timed_out not_json (Inr None) None) (u ''Hello'') w0 =
     (None, w0\<lparr>net := [mymemory_request (u ''Hello'')],
               logs := [(ERROR, u ''MyMemory API error: Read timed out. (read timeout=10)'')]\<rparr>) \<and>
   translate_with_libretranslate (example_env hello timed_out not_json (Inr None) None)
       (u ''Hello'') w0 =
     (None, w0\<lparr>net := [libretranslate_request None (u ''Hello'')],
               logs := [(ERROR, u ''LibreTranslate API error: Expecting value'')]\<rparr>)"
  using
    provider_failure_logged
      [of "example_env hello timed_out not_json (Inr None) None" "u ''Hello''"
          "Exn Timeout (u ''Read timed out. (read timeout=10)'')" w0]
    provider_failure_logged
      [of "example_env hello timed_out not_json (Inr None) None" "u ''Hello''"
          "Exn OtherException (u ''Expecting value'')" w0]
  by (simp add: ex_defs req_defs u_def)

section \<open>The handler of POST /translate: its cases\<close>

lemma mymemory_fst_world:
  "fst (translate_with_mymemory env text w) = fst (translate_with_mymemory env text w')"
  by (simp add: mymemory_fst)

lemma libretranslate_fst_world:
  "fst (translate_with_libretranslate env text w) = fst (translate_with_libretranslate env text w')"
  by (simp add: libretranslate_fst)

lemma net_log_info [simp]: "net (log_info m w) = net w"
  by (simp add: log_info_def)

lemma db_log_info [simp]: "db (log_info m w) = db w"
  by (simp add: log_info_def)

lemma net_log_error [simp]: "net (log_error m e w) = net w"
  by (simp add: log_error_def)

lemma db_log_error [simp]: "db (log_error m e w) = db w"
  by (simp add: log_error_def)

lemma on_success_net: "net (snd (on_success env text tr svc w)) = net w"
  by (simp add: on_success_def save_history_def split: sum.splits option.splits)

lemma try_libretranslate_net:
  "net (snd (try_libretranslate env text w)) = net w @ [libretranslate_request (api_key env) text]"
proof -
  obtain b wb where b: "translate_with_libretranslate env text
      (log_info ''MyMemory failed, attempting LibreTranslate API'' w) = (b, wb)"
    by (cases "translate_with_libretranslate env text
      (log_info ''MyMemory failed, attempting LibreTranslate API'' w)")
  have "net wb = net w @ [libretranslate_request (api_key env) text]"
    using libretranslate_net [of env "text" "log_info ''MyMemory failed, attempting LibreTranslate API'' w"]
    by (simp add: b)
  then show ?thesis
    by (simp add: try_libretranslate_def b on_success_net split: option.splits)
qed

lemma on_success_fst_eq:
  "fst (on_success env text tr svc w) =
     (case current_user env of Inl e \<Rightarrow> Inl e | Inr cu \<Rightarrow> Inr (success_response tr text svc))"
  by (simp add: on_success_def split: sum.splits option.splits)

lemma try_libretranslate_fst:
  "fst (try_libretranslate env text w) =
     (case fst (translate_with_libretranslate env text w) of
        None \<Rightarrow> Inr unavailable
      | Some s \<Rightarrow>
          if s \<noteq> [] then
            (case current_user env of
               Inl e \<Rightarrow> Inl e
             | Inr cu \<Rightarrow> Inr (success_response s text ''LibreTranslate''))
          else Inr unavailable)"
proof -
  obtain b wb where b: "translate_with_libretranslate env text
      (log_info ''MyMemory failed, attempting LibreTranslate API'' w) = (b, wb)"
    by (cases "translate_with_libretranslate env text
      (log_info ''MyMemory failed, attempting LibreTranslate API'' w)")
  have "fst (translate_with_libretranslate env text w) = b"
    using libretranslate_fst_world [of env "text" w "log_info ''MyMemory failed, attempting LibreTranslate API'' w"]
    by (simp add: b)
  then show ?thesis
    by (simp add: try_libretranslate_def b unavailable_def on_success_fst_eq split: option.splits)
qed

lemma parsed_text:
  assumes "get_json env = Inr data" "dict_get data (u ''text'') (PStr []) = Inr t"
    "str_strip t = Inr text"
  shows "bind_exn (get_json env) (\<lambda>data.
           bind_exn (dict_get data (u ''text'') (PStr [])) str_strip) = Inr text"
  using assms by (simp add: bind_exn_def)

lemma translate_body_text:
  assumes "bind_exn (get_json env) (\<lambda>data.
           bind_exn (dict_get data (u ''text'') (PStr [])) str_strip) = Inr text" "text \<noteq> []"
  shows "fst (translate_body env w) =
           (case fst (translate_with_mymemory env text w) of
              None \<Rightarrow> fst (try_libretranslate env text w)
            | Some s \<Rightarrow>
                if s \<noteq> [] then
                  (case current_user env of
                     Inl e \<Rightarrow> Inl e
                   | Inr cu \<Rightarrow> Inr (success_response s text ''MyMemory''))
                else fst (try_libretranslate env text w))"
    and "net (snd (translate_body env w)) =
           (case fst (translate_with_mymemory env text w) of
              None \<Rightarrow> net w @ [mymemory_request text, libretranslate_request (api_key env) text]
            | Some s \<Rightarrow> if s \<noteq> [] then net w @ [mymemory_request text]
                        else net w @ [mymemory_request text, libretranslate_request (api_key env) text])"
proof -
  obtain a wa where a: "translate_with_mymemory env text
      (log_info ''Attempting translation with MyMemory API'' w) = (a, wa)"
    by (cases "translate_with_mymemory env text
      (log_info ''Attempting translation with MyMemory API'' w)")
  have fa: "fst (translate_with_mymemory env text w) = a"
    using mymemory_fst_world [of env "text" w "log_info ''Attempting translation with MyMemory API'' w"]
    by (simp add: a)
  have na: "net wa = net w @ [mymemory_request text]"
    using mymemory_net [of env "text" "log_info ''Attempting translation with MyMemory API'' w"]
    by (simp add: a)
  have tl: "fst (try_libretranslate env text wa) = fst (try_libretranslate env text w)"
    by (simp add: try_libretranslate_fst libretranslate_fst)
  show "fst (translate_body env w) =
           (case fst (translate_with_mymemory env text w) of
              None \<Rightarrow> fst (try_libretranslate env text w)
            | Some s \<Rightarrow>
                if s \<noteq> [] then
                  (case current_user env of
                     Inl e \<Rightarrow> Inl e
                   | Inr cu \<Rightarrow> Inr (success_response s text ''MyMemory''))
                else fst (try_libretranslate env text w))"
    using assms
    by (simp add: translate_body_def a fa tl on_success_fst_eq split: option.splits)
  show "net (snd (translate_body env w)) =
           (case fst (translate_with_mymemory env text w) of
              None \<Rightarrow> net w @ [mymemory_request text, libretranslate_request (api_key env) text]
            | Some s \<Rightarrow> if s \<noteq> [] then net w @ [mymemory_request text]
                        else net w @ [mymemory_request text, libretranslate_request (api_key env) text])"
    using assms
    by (simp add: translate_body_def a fa na try_libretranslate_net on_success_net split: option.splits)
qed

lemma translate_fst:
  "fst (translate env w) =
     (case fst (translate_body env w) of Inr r \<Rightarrow> r | Inl e \<Rightarrow> fst (on_exception e w))"
  by (cases "translate_body env w")
     (simp add: translate_def on_exception_def split: sum.splits exn_class.splits)

lemma translate_net: "net (snd (translate env w)) = net (snd (translate_body env w))"
  by (cases "translate_body env w")
     (simp add: translate_def on_exception_def split: sum.splits exn_class.splits)

lemma translate_db: "db (snd (translate env w)) = db (snd (translate_body env w))"
  by (cases "translate_body env w")
     (simp add: translate_def on_exception_def split: sum.splits exn_class.splits)

lemma mymemory_db_failure:
  "translate_with_mymemory (env\<lparr>db_failure := f\<rparr>) text w = translate_with_mymemory env text w"
  by (simp add: translate_with_mymemory_def)

lemma libretranslate_db_failure:
  "translate_with_libretranslate (env\<lparr>db_failure := f\<rparr>) text w =
   translate_with_libretranslate env text w"
  by (simp add: translate_with_libretranslate_def)

lemma try_libretranslate_cases:
  obtains (second) s wa where "s \<noteq> []" "db wa = db w"
      "\<And>f. try_libretranslate (env\<lparr>db_failure := f\<rparr>) text w =
            on_success (env\<lparr>db_failure := f\<rparr>) text s ''LibreTranslate'' wa"
  | (neither) wa where "db wa = db w"
      "\<And>f. try_libretranslate (env\<lparr>db_failure := f\<rparr>) text w = (Inr unavailable, wa)"
proof -
  obtain b wb where b: "translate_with_libretranslate env text
      (log_info ''MyMemory failed, attempting LibreTranslate API'' w) = (b, wb)"
    by (cases "translate_with_libretranslate env text
      (log_info ''MyMemory failed, attempting LibreTranslate API'' w)")
  have dbb: "db wb = db w"
    using libretranslate_db [of env "text" "log_info ''MyMemory failed, attempting LibreTranslate API'' w"]
    by (simp add: b)
  show thesis
  proof (cases "\<exists>s. b = Some s \<and> s \<noteq> []")
    case True
    then obtain s where s: "b = Some s" "s \<noteq> []" by blast
    show thesis
      by (rule second [of s wb])
         (simp_all add: s dbb try_libretranslate_def libretranslate_db_failure b)
  next
    case False
    show thesis
    proof (rule neither [of wb])
      show "db wb = db w" by (rule dbb)
      show "try_libretranslate (env\<lparr>db_failure := f\<rparr>) text w = (Inr unavailable, wb)" for f
        using False
        by (cases b) (simp_all add: try_libretranslate_def libretranslate_db_failure b unavailable_def)
    qed
  qed
qed

lemma translate_body_cases:
  obtains (raised) e where "\<And>f. translate_body (env\<lparr>db_failure := f\<rparr>) w = (Inl e, w)"
      "bind_exn (get_json env) (\<lambda>data.
         bind_exn (dict_get data (u ''text'') (PStr [])) str_strip) = Inl e"
  | (empty) data t where "get_json env = Inr data"
      "dict_get data (u ''text'') (PStr []) = Inr (PStr t)" "strip t = []"
      "\<And>f. translate_body (env\<lparr>db_failure := f\<rparr>) w =
            (Inr (error_response 400 ''Please enter some text to translate''), w)"
  | (found) data t s svc wa where "get_json env = Inr data"
      "dict_get data (u ''text'') (PStr []) = Inr (PStr t)" "strip t \<noteq> []" "s \<noteq> []"
      "svc = ''MyMemory'' \<or> svc = ''LibreTranslate''" "db wa = db w"
      "\<And>f. translate_body (env\<lparr>db_failure := f\<rparr>) w =
            on_success (env\<lparr>db_failure := f\<rparr>) (strip t) s svc wa"
  | (exhausted) wa where "db wa = db w"
      "\<And>f. translate_body (env\<lparr>db_failure := f\<rparr>) w = (Inr unavailable, wa)"
proof (cases "bind_exn (get_json env) (\<lambda>data.
         bind_exn (dict_get data (u ''text'') (PStr [])) str_strip)")
  case (Inl e)
  show thesis
    by (rule raised [of e]) (simp_all add: translate_body_def Inl)
next
  case (Inr tx)
  then obtain data t where p: "get_json env = Inr data"
      "dict_get data (u ''text'') (PStr []) = Inr (PStr t)" "tx = strip t"
    by (auto simp: bind_exn_def str_strip_Inr split: sum.splits)
  show thesis
  proof (cases "tx = []")
    case True
    show thesis
      by (rule empty [OF p(1,2)]) (use True p(3) Inr in \<open>simp_all add: translate_body_def\<close>)
  next
    case False
    obtain a wa where a: "translate_with_mymemory env tx
        (log_info ''Attempting translation with MyMemory API'' w) = (a, wa)"
      by (cases "translate_with_mymemory env tx
        (log_info ''Attempting translation with MyMemory API'' w)")
    have dba: "db wa = db w"
      using mymemory_db [of env tx "log_info ''Attempting translation with MyMemory API'' w"]
      by (simp add: a)
    have body: "translate_body (env\<lparr>db_failure := f\<rparr>) w =
        (case a of
           None \<Rightarrow> try_libretranslate (env\<lparr>db_failure := f\<rparr>) tx wa
         | Some translated \<Rightarrow>
             if translated \<noteq> []
             then on_success (env\<lparr>db_failure := f\<rparr>) tx translated ''MyMemory'' wa
             else try_libretranslate (env\<lparr>db_failure := f\<rparr>) tx wa)" for f
      using False Inr by (simp add: translate_body_def mymemory_db_failure a split: option.splits)
    show thesis
    proof (cases "\<exists>s. a = Some s \<and> s \<noteq> []")
      case True
      then obtain s where s: "a = Some s" "s \<noteq> []" by blast
      have "translate_body (env\<lparr>db_failure := f\<rparr>) w =
            on_success (env\<lparr>db_failure := f\<rparr>) (strip t) s ''MyMemory'' wa" for f
        using s p(3) by (simp add: body)
      with False p s dba show thesis
        by (intro found [of data t s "''MyMemory''" wa]) simp_all
    next
      case no: False
      have tb: "translate_body (env\<lparr>db_failure := f\<rparr>) w =
                try_libretranslate (env\<lparr>db_failure := f\<rparr>) tx wa" for f
        using no by (cases a) (simp_all add: body)
      show thesis
      proof (cases rule: try_libretranslate_cases [of wa env tx])
        case (second s wb)
        have "translate_body (env\<lparr>db_failure := f\<rparr>) w =
              on_success (env\<lparr>db_failure := f\<rparr>) (strip t) s ''LibreTranslate'' wb" for f
          using second(3) p(3) by (simp add: tb)
        with False p second(1,2) dba show thesis
          by (intro found [of data t s "''LibreTranslate''" wb]) simp_all
      next
        case (neither wb)
        show thesis
          by (rule exhausted [of wb]) (use neither dba in \<open>simp_all add: tb\<close>)
      qed
    qed
  qed
qed

lemma status_on_exception: "status (fst (on_exception e w)) \<in> {500, 503, 504}"
  by (simp add: on_exception_def error_response_def split: exn_class.splits)

lemma status_unavailable [simp]: "status unavailable = 503"
  by (simp add: unavailable_def error_response_def)

lemma on_exception_shape:
  "\<exists>code msg. (code = 500 \<or> code = 503 \<or> code = 504) \<and>
     fst (on_exception e w) = error_response code msg"
  by (cases "exn_cls e") (auto simp: on_exception_def)

lemma on_success_authenticated:
  "current_user env = Inr (Some uid) \<Longrightarrow>
   on_success env text s svc w =
     (Inr (success_response s text svc), save_history env uid text s svc w)"
  by (simp add: on_success_def)

lemma status_success [simp]: "status (success_response s t svc) = 200"
  by (simp add: success_response_def)

lemma status_error [simp]: "status (error_response code msg) = code"
  by (simp add: error_response_def)

text \<open>
  \<^bold>\<open>C1\<close> (amended). For a request whose text is non-empty after trimming, the handler
  calls MyMemory first and each provider at most once. If \<open>translate_with_mymemory\<close>
  returns a non-empty string and reading the caller's session does not raise, the
  response is 200 with service \<open>MyMemory\<close> and LibreTranslate is not called. If it
  returns \<open>None\<close>, LibreTranslate is called once after it: a non-empty string, when
  reading the session does not raise, gives 200 with service \<open>LibreTranslate\<close>, and
  \<open>None\<close> gives 503 with \<open>success\<close> false. When a provider returned a non-empty string
  and reading the session raises, the response is the one of the except clauses, not
  200. In every case the outbound calls of the request are the one to MyMemory, or
  that one followed by the one to LibreTranslate. (What a client returns does not depend on the state it is called in, see
  \<open>mymemory_fst_world\<close>, so it is read at \<open>w\<close>.)
\<close>

theorem translate_fallback_order:
  assumes "get_json env = Inr data" and "dict_get data (u ''text'') (PStr []) = Inr t"
    and "str_strip t = Inr text" and "text \<noteq> []"
  shows
    "(fst (translate_with_mymemory env text w) = Some s \<and> s \<noteq> [] \<and> current_user env = Inr cu \<longrightarrow>
        fst (translate env w) = success_response s text ''MyMemory'' \<and>
        net (snd (translate env w)) = net w @ [mymemory_request text]) \<and>
     (fst (translate_with_mymemory env text w) = None \<and>
      fst (translate_with_libretranslate env text w) = Some s \<and> s \<noteq> [] \<and>
      current_user env = Inr cu \<longrightarrow>
        fst (translate env w) = success_response s text ''LibreTranslate'' \<and>
        net (snd (translate env w)) =
          net w @ [mymemory_request text, libretranslate_request (api_key env) text]) \<and>
     (fst (translate_with_mymemory env text w) = None \<and>
      fst (translate_with_libretranslate env text w) = None \<longrightarrow>
        fst (translate env w) = error_response 503
          ''Translation services are currently unavailable. Please try again later.'' \<and>
        net (snd (translate env w)) =
          net w @ [mymemory_request text, libretranslate_request (api_key env) text]) \<and>
     ((fst (translate_with_mymemory env text w) = Some s \<or>
       fst (translate_with_mymemory env text w) = None \<and>
       fst (translate_with_libretranslate env text w) = Some s) \<and>
      s \<noteq> [] \<and> current_user env = Inl e \<longrightarrow>
        fst (translate env w) = fst (on_exception e w) \<and>
        status (fst (translate env w)) \<noteq> 200) \<and>
     (net (snd (translate env w)) = net w @ [mymemory_request text] \<or>
      net (snd (translate env w)) =
        net w @ [mymemory_request text, libretranslate_request (api_key env) text])"
proof -
  note p = parsed_text [OF assms(1,2,3)]
  note b = translate_body_text [OF p assms(4), of w]
  have "status (fst (on_exception e w)) \<noteq> 200"
    using status_on_exception [of e w] by auto
  moreover have "net (snd (translate env w)) = net w @ [mymemory_request text] \<or>
      net (snd (translate env w)) =
        net w @ [mymemory_request text, libretranslate_request (api_key env) text]"
    by (simp add: translate_net b split: option.splits)
  ultimately show ?thesis
    by (auto simp: translate_fst translate_net b try_libretranslate_fst unavailable_def
          split: option.splits)
qed

text \<open>
  The branches at concrete providers: MyMemory answers; MyMemory times out and
  LibreTranslate answers; MyMemory times out and LibreTranslate sends no JSON;
  LibreTranslate answers and reading the session raises.
\<close>

theorem translate_fallback_order_witness:
  "fst (translate (example_env hello (mymemory_ok namaskar) timed_out (Inr None) None) w0) =
     success_response namaskar (u ''Hello'') ''MyMemory'' \<and>
   net (snd (translate (example_env hello (mymemory_ok namaskar) timed_out (Inr None) None) w0)) =
     [mymemory_request (u ''Hello'')] \<and>
   fst (translate (example_env hello timed_out (libretranslate_ok namaskar) (Inr None) None) w0) =
     success_response namaskar (u ''Hello'') ''LibreTranslate'' \<and>
   net (snd (translate (example_env hello timed_out (libretranslate_ok namaskar) (Inr None) None) w0)) =
     [mymemory_request (u ''Hello''), libretranslate_request None (u ''Hello'')] \<and>
   fst (translate (example_env hello timed_out not_json (Inr None) None) w0) =
     error_response 503
       ''Translation services are currently unavailable. Please try again later.'' \<and>
   net (snd (translate (example_env hello timed_out not_json (Inr None) None) w0)) =
     [mymemory_request (u ''Hello''), libretranslate_request None (u ''Hello'')] \<and>
   status (fst (translate
     (example_env hello timed_out (libretranslate_ok namaskar) (Inl storage_down) None) w0)) \<noteq> 200"
  using
    translate_fallback_order [OF hello_parsed(1,2,3,5),
      of "mymemory_ok namaskar" timed_out "Inr None" None w0 namaskar None]
    translate_fallback_order [OF hello_parsed(1,2,3,5),
      of timed_out "libretranslate_ok namaskar" "Inr None" None w0 namaskar None]
    translate_fallback_order [OF hello_parsed(1,2,3,5),
      of timed_out not_json "Inr None" None w0 namaskar None]
    translate_fallback_order [OF hello_parsed(1,2,3,5),
      of timed_out "libretranslate_ok namaskar" "Inl storage_down" None w0 namaskar _ storage_down]
  by (simp add: ex_defs req_defs client_defs u_def strip_def is_space_def on_exception_def
        error_response_def)

text \<open>
  \<^bold>\<open>C1\<close> as stated fails: \<open>translate_with_mymemory\<close> returns the greeting, which is not
  \<open>None\<close>, reading the caller's session then raises, and the response is 500, not 200
  with service \<open>MyMemory\<close>.
\<close>

theorem session_failure_counterexample:
  "fst (translate_with_mymemory
          (example_env hello (mymemory_ok namaskar) timed_out (Inl storage_down) None)
          (u ''Hello'') w0) = Some namaskar \<and>
   fst (translate
          (example_env hello (mymemory_ok namaskar) timed_out (Inl storage_down) None) w0) =
     error_response 500 ''An unexpected error occurred. Please try again.''"
  by (simp add: eval_defs)

text \<open>
  \<^bold>\<open>C2\<close>. When the body is an object whose \<open>text\<close> (the empty string when the key
  is missing) is a string that is empty after trimming, the handler answers 400 with
  the error \<open>Please enter some text to translate\<close>, whoever the caller is, and leaves
  the table, the log and the record of outbound calls as they were.
\<close>

theorem translate_empty_text:
  assumes "get_json env = Inr data" and "dict_get data (u ''text'') (PStr []) = Inr (PStr s)"
    and "strip s = []"
  shows "translate env w = (error_response 400 ''Please enter some text to translate'', w)"
  using assms by (simp add: translate_def translate_body_def bind_exn_def)

text \<open>
  A text of a space, a tab, a no-break space and an ideographic space from an
  authenticated caller, and a body without the key from an anonymous one.
\<close>

theorem translate_empty_text_witness:
  "strip [32, 9, 160, 12288] = [] \<and>
   translate (example_env (Inr (PDict [(u ''text'', PStr [32, 9, 160, 12288])]))
                (mymemory_ok namaskar) timed_out (Inr (Some (u ''42''))) None) w0 =
     (error_response 400 ''Please enter some text to translate'', w0) \<and>
   translate (example_env (Inr (PDict [])) (mymemory_ok namaskar) timed_out (Inr None) None) w0 =
     (error_response 400 ''Please enter some text to translate'', w0)"
  using
    translate_empty_text
      [of "example_env (Inr (PDict [(u ''text'', PStr [32, 9, 160, 12288])]))
             (mymemory_ok namaskar) timed_out (Inr (Some (u ''42''))) None"
          "PDict [(u ''text'', PStr [32, 9, 160, 12288])]" "[32, 9, 160, 12288]" w0]
    translate_empty_text
      [of "example_env (Inr (PDict [])) (mymemory_ok namaskar) timed_out (Inr None) None"
          "PDict []" "[]" w0]
  by (simp add: example_env_def u_def strip_def is_space_def)

text \<open>
  \<^bold>\<open>C9\<close>. When the body decodes to \<open>None\<close> or to any other value that is not an
  object, \<open>data.get\<close> raises and the handler answers 500 with the generic message,
  logging the error; a 400 is answered only when the body decoded to an object.
\<close>

theorem translate_non_object_body:
  "(get_json env = Inr data \<and> (\<forall>kvs. data \<noteq> PDict kvs) \<longrightarrow>
      translate env w =
        (error_response 500 ''An unexpected error occurred. Please try again.'',
         log_error ''Translation error: '' (attribute_error data ''get'') w)) \<and>
   (status (fst (translate env w)) = 400 \<longrightarrow> (\<exists>kvs. get_json env = Inr (PDict kvs)))"
proof (intro conjI impI)
  assume a: "get_json env = Inr data \<and> (\<forall>kvs. data \<noteq> PDict kvs)"
  then have "dict_get data (u ''text'') (PStr []) = Inl (attribute_error data ''get'')"
    by (cases data) simp_all
  with a show "translate env w =
        (error_response 500 ''An unexpected error occurred. Please try again.'',
         log_error ''Translation error: '' (attribute_error data ''get'') w)"
    by (simp add: translate_def translate_body_def bind_exn_def on_exception_def
          attribute_error_def)
next
  assume st: "status (fst (translate env w)) = 400"
  show "\<exists>kvs. get_json env = Inr (PDict kvs)"
  proof (cases rule: translate_body_cases [of env w])
    case (raised e)
    from raised(1) [of "db_failure env"] have "translate_body env w = (Inl e, w)" by simp
    then have "fst (translate env w) = fst (on_exception e w)"
      by (simp add: translate_fst)
    with st status_on_exception [of e w] show ?thesis by simp
  next
    case (empty data t)
    then show ?thesis by (auto simp: dict_get_Inr)
  next
    case (found data t s svc wa)
    then show ?thesis by (auto simp: dict_get_Inr)
  next
    case (exhausted wa)
    from exhausted(2) [of "db_failure env"] have "translate_body env w = (Inr unavailable, wa)"
      by simp
    with st show ?thesis by (simp add: translate_fst)
  qed
qed

text \<open>
  The bodies \<open>null\<close> and \<open>["Hello"]\<close> give 500, the body \<open>{}\<close> gives 400.
\<close>

theorem translate_non_object_body_witness:
  "translate (example_env (Inr PNone) (mymemory_ok namaskar) timed_out (Inr None) None) w0 =
     (error_response 500 ''An unexpected error occurred. Please try again.'',
      w0\<lparr>logs := [(ERROR, u ''Translation error: '' @ [39] @ u ''NoneType'' @ [39] @
                       u '' object has no attribute '' @ [39] @ u ''get'' @ [39])]\<rparr>) \<and>
   translate (example_env (Inr (PList [PStr (u ''Hello'')])) (mymemory_ok namaskar) timed_out
       (Inr None) None) w0 =
     (error_response 500 ''An unexpected error occurred. Please try again.'',
      w0\<lparr>logs := [(ERROR, u ''Translation error: '' @ [39] @ u ''list'' @ [39] @
                       u '' object has no attribute '' @ [39] @ u ''get'' @ [39])]\<rparr>) \<and>
   status (fst (translate (example_env (Inr (PDict [])) (mymemory_ok namaskar) timed_out
       (Inr None) None) w0)) = 400"
  using
    translate_non_object_body
      [of "example_env (Inr PNone) (mymemory_ok namaskar) timed_out (Inr None) None" PNone w0]
    translate_non_object_body
      [of "example_env (Inr (PList [PStr (u ''Hello'')])) (mymemory_ok namaskar) timed_out
             (Inr None) None" "PList [PStr (u ''Hello'')]" w0]
  by (simp add: example_env_def log_error_def attribute_error_def w0_def strip_def
        error_response_def translate_def translate_body_def bind_exn_def)

text \<open>
  \<^bold>\<open>C10\<close>. Every response with status 200 carries a non-empty \<open>translated_text\<close>,
  an \<open>original_text\<close> equal to the trimmed \<open>text\<close> of the request, and a \<open>service\<close>
  that is \<open>MyMemory\<close> or \<open>LibreTranslate\<close>.
\<close>

theorem translate_ok_response:
  "status (fst (translate env w)) = 200 \<longrightarrow>
     (\<exists>data t s svc.
        get_json env = Inr data \<and> dict_get data (u ''text'') (PStr []) = Inr (PStr t) \<and>
        strip t \<noteq> [] \<and> s \<noteq> [] \<and> (svc = ''MyMemory'' \<or> svc = ''LibreTranslate'') \<and>
        fst (translate env w) = success_response s (strip t) svc)"
proof
  assume st: "status (fst (translate env w)) = 200"
  show "\<exists>data t s svc.
        get_json env = Inr data \<and> dict_get data (u ''text'') (PStr []) = Inr (PStr t) \<and>
        strip t \<noteq> [] \<and> s \<noteq> [] \<and> (svc = ''MyMemory'' \<or> svc = ''LibreTranslate'') \<and>
        fst (translate env w) = success_response s (strip t) svc"
  proof (cases rule: translate_body_cases [of env w])
    case (raised e)
    from raised(1) [of "db_failure env"] have "translate_body env w = (Inl e, w)" by simp
    then have "fst (translate env w) = fst (on_exception e w)"
      by (simp add: translate_fst)
    with st status_on_exception [of e w] show ?thesis by simp
  next
    case (empty data t)
    from empty(4) [of "db_failure env"] st show ?thesis
      by (simp add: translate_fst error_response_def)
  next
    case (found data t s svc wa)
    from found(7) [of "db_failure env"]
    have tb: "translate_body env w = on_success env (strip t) s svc wa" by simp
    show ?thesis
    proof (cases "current_user env")
      case (Inl e)
      then have "fst (translate env w) = fst (on_exception e w)"
        by (simp add: translate_fst tb on_success_fst_eq)
      with st status_on_exception [of e w] show ?thesis by simp
    next
      case (Inr cu)
      then have "fst (translate env w) = success_response s (strip t) svc"
        by (simp add: translate_fst tb on_success_fst_eq)
      with found(1-5) show ?thesis by blast
    qed
  next
    case (exhausted wa)
    from exhausted(2) [of "db_failure env"] have "translate_body env w = (Inr unavailable, wa)"
      by simp
    with st show ?thesis by (simp add: translate_fst)
  qed
qed

text \<open>
  The request \<open>" Hello "\<close> answered by LibreTranslate.
\<close>

theorem translate_ok_response_witness:
  "fst (translate (example_env hello timed_out (libretranslate_ok namaskar) (Inr None) None) w0) =
     success_response namaskar (u ''Hello'') ''LibreTranslate'' \<and>
   status (fst (translate
     (example_env hello timed_out (libretranslate_ok namaskar) (Inr None) None) w0)) = 200"
proof -
  have a: "fst (translate
      (example_env hello timed_out (libretranslate_ok namaskar) (Inr None) None) w0) =
     success_response namaskar (u ''Hello'') ''LibreTranslate''"
    by (simp add: eval_defs)
  show ?thesis
    using a translate_ok_response
      [of "example_env hello timed_out (libretranslate_ok namaskar) (Inr None) None" w0]
    by simp
qed

text \<open>
  \<^bold>\<open>C8\<close>. Whatever the collaborators do, the handler returns a response: the
  success body with status 200, or \<open>success\<close> false and an error message with status
  400, 500, 503 or 504. An exception that leaves the body of the outer \<open>try\<close> becomes
  504 when it is a timeout, 503 when it is a connection error, and otherwise 500 with
  the generic message, the detail going to the log only.
\<close>

theorem translate_always_responds:
  "((\<exists>s t svc. fst (translate env w) = success_response s t svc) \<or>
    (\<exists>code msg. (code = 400 \<or> code = 500 \<or> code = 503 \<or> code = 504) \<and>
       fst (translate env w) = error_response code msg)) \<and>
   (translate_body env w = (Inl e, w') \<longrightarrow>
      translate env w =
        (case exn_cls e of
           Timeout \<Rightarrow>
             (error_response 504 ''Translation request timed out. Please try again.'', w')
         | ConnectionError \<Rightarrow>
             (error_response 503
                ''Unable to connect to translation service. Please check your internet connection.'',
              w')
         | OtherException \<Rightarrow>
             (error_response 500 ''An unexpected error occurred. Please try again.'',
              log_error ''Translation error: '' e w')))"
proof
  show "(\<exists>s t svc. fst (translate env w) = success_response s t svc) \<or>
    (\<exists>code msg. (code = 400 \<or> code = 500 \<or> code = 503 \<or> code = 504) \<and>
       fst (translate env w) = error_response code msg)"
  proof (cases rule: translate_body_cases [of env w])
    case (raised x)
    from raised(1) [of "db_failure env"] have "fst (translate env w) = fst (on_exception x w)"
      by (simp add: translate_fst)
    with on_exception_shape [of x w] show ?thesis by auto
  next
    case (empty data t)
    from empty(4) [of "db_failure env"] show ?thesis
      by (auto simp: translate_fst)
  next
    case (found data t s svc wa)
    from found(7) [of "db_failure env"]
    have tb: "translate_body env w = on_success env (strip t) s svc wa" by simp
    show ?thesis
    proof (cases "current_user env")
      case (Inl x)
      then have "fst (translate env w) = fst (on_exception x w)"
        by (simp add: translate_fst tb on_success_fst_eq)
      with on_exception_shape [of x w] show ?thesis by auto
    next
      case (Inr cu)
      then have "fst (translate env w) = success_response s (strip t) svc"
        by (simp add: translate_fst tb on_success_fst_eq)
      then show ?thesis by blast
    qed
  next
    case (exhausted wa)
    from exhausted(2) [of "db_failure env"] show ?thesis
      by (auto simp: translate_fst unavailable_def)
  qed
next
  show "translate_body env w = (Inl e, w') \<longrightarrow>
      translate env w =
        (case exn_cls e of
           Timeout \<Rightarrow>
             (error_response 504 ''Translation request timed out. Please try again.'', w')
         | ConnectionError \<Rightarrow>
             (error_response 503
                ''Unable to connect to translation service. Please check your internet connection.'',
              w')
         | OtherException \<Rightarrow>
             (error_response 500 ''An unexpected error occurred. Please try again.'',
              log_error ''Translation error: '' e w'))"
    by (simp add: translate_def on_exception_def)
qed

text \<open>
  Reading the request times out; the session lookup fails to connect after MyMemory
  answered; reading the request raises some other exception.
\<close>

theorem translate_always_responds_witness:
  "translate (example_env (Inl (Exn Timeout (u ''timed out''))) (mymemory_ok namaskar) timed_out (Inr None) None) w0 =
     (error_response 504 ''Translation request timed out. Please try again.'', w0) \<and>
   fst (translate (example_env hello (mymemory_ok namaskar) timed_out
          (Inl (Exn ConnectionError (u ''Connection refused''))) None) w0) =
     error_response 503
       ''Unable to connect to translation service. Please check your internet connection.'' \<and>
   translate (example_env (Inl storage_down) (mymemory_ok namaskar) timed_out (Inr None) None) w0 =
     (error_response 500 ''An unexpected error occurred. Please try again.'',
      log_error ''Translation error: '' storage_down w0)"
proof -
  have a: "translate_body (example_env (Inl (Exn Timeout (u ''timed out''))) (mymemory_ok namaskar) timed_out (Inr None) None) w0 =
      (Inl (Exn Timeout (u ''timed out'')), w0)"
    by (simp add: translate_body_def example_env_def bind_exn_def)
  have b: "translate_body (example_env hello (mymemory_ok namaskar) timed_out
          (Inl (Exn ConnectionError (u ''Connection refused''))) None) w0 =
      (Inl (Exn ConnectionError (u ''Connection refused'')),
       \<lparr>db = [], logs = [(INFO, u ''Attempting translation with MyMemory API'')],
        net = [mymemory_request (u ''Hello'')]\<rparr>)"
    by (simp add: eval_defs)
  have c: "translate_body (example_env (Inl storage_down) (mymemory_ok namaskar) timed_out
          (Inr None) None) w0 = (Inl storage_down, w0)"
    by (simp add: translate_body_def example_env_def bind_exn_def)
  note r1 = translate_always_responds
      [of "example_env (Inl (Exn Timeout (u ''timed out''))) (mymemory_ok namaskar) timed_out
             (Inr None) None" w0 "Exn Timeout (u ''timed out'')" w0,
       THEN conjunct2, THEN mp, OF a]
  note r2 = translate_always_responds
      [of "example_env hello (mymemory_ok namaskar) timed_out
             (Inl (Exn ConnectionError (u ''Connection refused''))) None" w0
          "Exn ConnectionError (u ''Connection refused'')"
          "\<lparr>db = [], logs = [(INFO, u ''Attempting translation with MyMemory API'')],
            net = [mymemory_request (u ''Hello'')]\<rparr>",
       THEN conjunct2, THEN mp, OF b]
  note r3 = translate_always_responds
      [of "example_env (Inl storage_down) (mymemory_ok namaskar) timed_out (Inr None) None" w0
          storage_down w0,
       THEN conjunct2, THEN mp, OF c]
  show ?thesis
    using r1 r2 r3 by (simp add: storage_down_def)
qed

section \<open>The history of translations\<close>

text \<open>
  \<^bold>\<open>C5\<close>. For an authenticated caller whose translation succeeds, an exception
  raised while the row is saved is caught and logged, and the response is the one
  given when saving succeeds: 200 with the same body. No row is added.
\<close>

theorem history_failure_keeps_response:
  assumes "current_user env = Inr (Some uid)"
    and "status (fst (translate (env\<lparr>db_failure := None\<rparr>) w)) = 200"
  shows "fst (translate (env\<lparr>db_failure := Some e\<rparr>) w) =
           fst (translate (env\<lparr>db_failure := None\<rparr>) w) \<and>
         logs (snd (translate (env\<lparr>db_failure := Some e\<rparr>) w)) =
           logs (snd (translate (env\<lparr>db_failure := None\<rparr>) w)) @
             [(ERROR, u ''Failed to save translation history: '' @ str_of e)] \<and>
         db (snd (translate (env\<lparr>db_failure := Some e\<rparr>) w)) = db w"
proof (cases rule: translate_body_cases [of env w])
  case (raised x)
  from raised(1) [of None]
  have "fst (translate (env\<lparr>db_failure := None\<rparr>) w) = fst (on_exception x w)"
    by (simp add: translate_fst)
  with assms(2) status_on_exception [of x w] show ?thesis by simp
next
  case (empty data t)
  from empty(4) [of None] assms(2) show ?thesis
    by (simp add: translate_fst)
next
  case (found data t s svc wa)
  have cu: "current_user (env\<lparr>db_failure := f\<rparr>) = Inr (Some uid)" for f
    using assms(1) by simp
  have tb: "translate (env\<lparr>db_failure := f\<rparr>) w =
      (success_response s (strip t) svc,
       save_history (env\<lparr>db_failure := f\<rparr>) uid (strip t) s svc wa)" for f
    by (simp add: translate_def found(7) on_success_authenticated [OF cu])
  show ?thesis
    by (simp add: tb save_history_def log_error_def found(6))
next
  case (exhausted wa)
  from exhausted(2) [of None] assms(2) show ?thesis
    by (simp add: translate_fst)
qed

text \<open>
  User 42, MyMemory answers, the storage is down.
\<close>

theorem history_failure_keeps_response_witness:
  "current_user (example_env hello (mymemory_ok namaskar) timed_out (Inr (Some (u ''42''))) None) =
     Inr (Some (u ''42'')) \<and>
   status (fst (translate
     ((example_env hello (mymemory_ok namaskar) timed_out (Inr (Some (u ''42''))) None)
        \<lparr>db_failure := None\<rparr>) w0)) = 200 \<and>
   fst (translate
     ((example_env hello (mymemory_ok namaskar) timed_out (Inr (Some (u ''42''))) None)
        \<lparr>db_failure := Some storage_down\<rparr>) w0) =
     success_response namaskar (u ''Hello'') ''MyMemory'' \<and>
   logs (snd (translate
     ((example_env hello (mymemory_ok namaskar) timed_out (Inr (Some (u ''42''))) None)
        \<lparr>db_failure := Some storage_down\<rparr>) w0)) =
     [(INFO, u ''Attempting translation with MyMemory API''),
      (ERROR, u ''Failed to save translation history: connection to server closed'')] \<and>
   db (snd (translate
     ((example_env hello (mymemory_ok namaskar) timed_out (Inr (Some (u ''42''))) None)
        \<lparr>db_failure := Some storage_down\<rparr>) w0)) = []"
proof -
  let ?env = "example_env hello (mymemory_ok namaskar) timed_out (Inr (Some (u ''42''))) None"
  have cu: "current_user ?env = Inr (Some (u ''42''))"
    by (simp add: example_env_def)
  have ok: "translate (?env\<lparr>db_failure := None\<rparr>) w0 =
      (success_response namaskar (u ''Hello'') ''MyMemory'',
       \<lparr>db = [\<lparr>row_id = 1, user_id = Some (u ''42''), original_text = u ''Hello'',
               translated_text = namaskar, service_used = u ''MyMemory'', created_at = 1000\<rparr>],
        logs = [(INFO, u ''Attempting translation with MyMemory API'')],
        net = [mymemory_request (u ''Hello'')]\<rparr>)"
    by (simp add: eval_defs)
  have st: "status (fst (translate (?env\<lparr>db_failure := None\<rparr>) w0)) = 200"
    by (simp add: ok)
  from history_failure_keeps_response [OF cu st, of storage_down] cu st
  show ?thesis
    unfolding ok by (simp add: storage_down_def w0_def u_def)
qed

text \<open>
  \<^bold>\<open>C6\<close> (amended). A request adds a row only when its translation succeeded and
  the caller is authenticated: a 200 response for an authenticated caller adds exactly
  one row, with the caller's id and the \<open>original_text\<close>, \<open>translated_text\<close> and
  \<open>service\<close> of the response body, provided that saving the row does not raise; when
  saving raises, when the caller is anonymous, or when the response is not 200, no row
  is added.
\<close>

theorem history_rows_created:
  "(status (fst (translate env w)) = 200 \<and> current_user env = Inr (Some uid) \<and>
    db_failure env = None \<longrightarrow>
      (\<exists>s t svc.
         fst (translate env w) = success_response s t svc \<and>
         db (snd (translate env w)) =
           db w @ [\<lparr>row_id = next_id (db w), user_id = Some uid, original_text = t,
                     translated_text = s, service_used = u svc, created_at = now env\<rparr>])) \<and>
   (status (fst (translate env w)) \<noteq> 200 \<or> current_user env = Inr None \<or>
    db_failure env \<noteq> None \<longrightarrow>
      db (snd (translate env w)) = db w)"
proof (cases rule: translate_body_cases [of env w])
  case (raised x)
  from raised(1) [of "db_failure env"] have tb: "translate_body env w = (Inl x, w)" by simp
  then have "fst (translate env w) = fst (on_exception x w)"
    by (simp add: translate_fst)
  with status_on_exception [of x w] have "status (fst (translate env w)) \<noteq> 200" by auto
  then show ?thesis by (simp add: translate_db tb)
next
  case (empty data t)
  from empty(4) [of "db_failure env"] show ?thesis
    by (simp add: translate_fst translate_db)
next
  case (found data t s svc wa)
  from found(7) [of "db_failure env"]
  have tb: "translate_body env w = on_success env (strip t) s svc wa" by simp
  show ?thesis
  proof (cases "current_user env")
    case (Inl x)
    then have tb': "translate_body env w = (Inl x, wa)"
      by (simp add: tb on_success_def)
    then have "fst (translate env w) = fst (on_exception x w)"
      by (simp add: translate_fst on_exception_def split: exn_class.splits)
    with status_on_exception [of x w] have "status (fst (translate env w)) \<noteq> 200" by auto
    then show ?thesis by (simp add: translate_db tb' found(6) Inl)
  next
    case (Inr cu)
    show ?thesis
    proof (cases cu)
      case None
      with Inr show ?thesis
        by (simp add: translate_fst translate_db tb on_success_def found(6))
    next
      case (Some v)
      with Inr have t: "translate env w =
          (success_response s (strip t) svc, save_history env v (strip t) s svc wa)"
        by (simp add: translate_def tb on_success_def)
      show ?thesis
        by (cases "db_failure env")
           (auto simp: t Inr Some save_history_def found(6))
    qed
  qed
next
  case (exhausted wa)
  from exhausted(2) [of "db_failure env"] show ?thesis
    by (simp add: translate_fst translate_db exhausted(1))
qed

text \<open>
  One row for user 42; none for an anonymous caller; none when both providers fail.
\<close>

theorem history_rows_created_witness:
  "translate (example_env hello (mymemory_ok namaskar) timed_out (Inr (Some (u ''42''))) None) w0 =
     (success_response namaskar (u ''Hello'') ''MyMemory'',
      \<lparr>db = [\<lparr>row_id = 1, user_id = Some (u ''42''), original_text = u ''Hello'',
              translated_text = namaskar, service_used = u ''MyMemory'', created_at = 1000\<rparr>],
       logs = [(INFO, u ''Attempting translation with MyMemory API'')],
       net = [mymemory_request (u ''Hello'')]\<rparr>) \<and>
   db (snd (translate (example_env hello (mymemory_ok namaskar) timed_out (Inr None) None) w0)) = [] \<and>
   db (snd (translate
     (example_env hello timed_out not_json (Inr (Some (u ''42''))) None) w0)) = []"
proof -
  have a: "translate (example_env hello (mymemory_ok namaskar) timed_out (Inr (Some (u ''42''))) None) w0 =
     (success_response namaskar (u ''Hello'') ''MyMemory'',
      \<lparr>db = [\<lparr>row_id = 1, user_id = Some (u ''42''), original_text = u ''Hello'',
              translated_text = namaskar, service_used = u ''MyMemory'', created_at = 1000\<rparr>],
       logs = [(INFO, u ''Attempting translation with MyMemory API'')],
       net = [mymemory_request (u ''Hello'')]\<rparr>)"
    by (simp add: eval_defs)
  have b: "current_user (example_env hello (mymemory_ok namaskar) timed_out (Inr None) None) = Inr None"
    by (simp add: example_env_def)
  have c: "status (fst (translate
     (example_env hello timed_out not_json (Inr (Some (u ''42''))) None) w0)) \<noteq> 200"
    by (simp add: eval_defs)
  show ?thesis
    using a
      history_rows_created
        [of "example_env hello (mymemory_ok namaskar) timed_out (Inr None) None" w0 "u ''42''"]
      history_rows_created
        [of "example_env hello timed_out not_json (Inr (Some (u ''42''))) None" w0 "u ''42''"]
      b c
    by (simp add: w0_def)
qed

text \<open>
  \<^bold>\<open>C6\<close> as stated fails: the translation of authenticated user 42 succeeds with
  status 200, the storage raises, and the table stays empty.
\<close>

theorem storage_failure_counterexample:
  "current_user
     (example_env hello (mymemory_ok namaskar) timed_out (Inr (Some (u ''42'')))
        (Some storage_down)) = Inr (Some (u ''42'')) \<and>
   fst (translate
     (example_env hello (mymemory_ok namaskar) timed_out (Inr (Some (u ''42'')))
        (Some storage_down)) w0) = success_response namaskar (u ''Hello'') ''MyMemory'' \<and>
   db (snd (translate
     (example_env hello (mymemory_ok namaskar) timed_out (Inr (Some (u ''42'')))
        (Some storage_down)) w0)) = []"
  by (simp add: eval_defs)

lemma sorted_desc_sort_key:
  "sorted_wrt (\<lambda>a b. created_at b \<le> created_at a) (sort_key (\<lambda>t. - created_at t) xs)"
proof -
  have "sorted (map (\<lambda>t. - created_at t) (sort_key (\<lambda>t. - created_at t) xs))"
    by (rule sorted_sort_key)
  then show ?thesis
    by (simp add: sorted_wrt_map)
qed

lemma sorted_wrt_take: "sorted_wrt P xs \<Longrightarrow> sorted_wrt P (take n xs)"
  by (metis append_take_drop_id sorted_wrt_append)

text \<open>
  \<^bold>\<open>C7\<close> (amended). \<open>GET /history\<close> redirects an anonymous caller to the login
  endpoint. For an authenticated caller, when the query does not raise, it renders the
  first 50 of the caller's rows in an order that is newest first by \<open>created_at\<close>: these
  are 50 rows, or all of the caller's rows when there are fewer, all with the caller's
  \<open>user_id\<close>, and a row of the caller that is left out is no newer than any row shown.
  An exception raised by the query is not caught and leaves the view.
\<close>

theorem history_page:
  "(current_user env = Inr None \<longrightarrow> history env w = Inr (Redirect ''replit_auth.login'')) \<and>
   (current_user env = Inr (Some uid) \<and> query_failure env = None \<longrightarrow>
      (\<exists>rows xs. history env w = Inr (Render ''history.html'' rows) \<and>
         mset xs = mset (filter (\<lambda>t. user_id t = Some uid) (db w)) \<and>
         sorted_wrt (\<lambda>a b. created_at b \<le> created_at a) xs \<and>
         rows = take 50 xs \<and>
         length rows = min 50 (length (filter (\<lambda>t. user_id t = Some uid) (db w))) \<and>
         (\<forall>t \<in> set rows. t \<in> set (db w) \<and> user_id t = Some uid) \<and>
         sorted_wrt (\<lambda>a b. created_at b \<le> created_at a) rows \<and>
         (\<forall>t \<in> set (db w). user_id t = Some uid \<and> t \<notin> set rows \<longrightarrow>
            (\<forall>r \<in> set rows. created_at t \<le> created_at r)))) \<and>
   (current_user env = Inr (Some uid) \<and> query_failure env = Some e \<longrightarrow>
      history env w = Inl e)"
proof (intro conjI impI)
  assume "current_user env = Inr None"
  then show "history env w = Inr (Redirect ''replit_auth.login'')"
    by (simp add: history_def)
next
  assume "current_user env = Inr (Some uid) \<and> query_failure env = Some e"
  then show "history env w = Inl e"
    by (simp add: history_def)
next
  assume cu: "current_user env = Inr (Some uid) \<and> query_failure env = None"
  define own where "own = filter (\<lambda>t. user_id t = Some uid) (db w)"
  define xs where "xs = sort_key (\<lambda>t. - created_at t) own"
  have h: "history env w = Inr (Render ''history.html'' (take 50 xs))"
    using cu by (simp add: history_def xs_def own_def)
  have m: "mset xs = mset own"
    by (simp add: xs_def)
  have s: "sorted_wrt (\<lambda>a b. created_at b \<le> created_at a) xs"
    unfolding xs_def by (rule sorted_desc_sort_key)
  have len: "length (take 50 xs) = min 50 (length own)"
    by (simp add: xs_def min.commute)
  have set_xs: "set xs = {t \<in> set (db w). user_id t = Some uid}"
    by (auto simp: xs_def own_def)
  have owned: "\<forall>t \<in> set (take 50 xs). t \<in> set (db w) \<and> user_id t = Some uid"
    using set_xs by (auto dest: in_set_takeD)
  have split: "sorted_wrt (\<lambda>a b. created_at b \<le> created_at a) (take 50 xs @ drop 50 xs)"
    using s by simp
  have recent: "\<forall>t \<in> set (db w). user_id t = Some uid \<and> t \<notin> set (take 50 xs) \<longrightarrow>
            (\<forall>r \<in> set (take 50 xs). created_at t \<le> created_at r)"
  proof (intro ballI impI)
    fix t r
    assume t: "t \<in> set (db w)" "user_id t = Some uid \<and> t \<notin> set (take 50 xs)"
      and r: "r \<in> set (take 50 xs)"
    from t have "t \<in> set xs" by (simp add: set_xs)
    then have "t \<in> set (take 50 xs) \<union> set (drop 50 xs)"
      by (metis append_take_drop_id set_append)
    with t have "t \<in> set (drop 50 xs)" by simp
    with r split show "created_at t \<le> created_at r"
      unfolding sorted_wrt_append by blast
  qed
  show "\<exists>rows xs. history env w = Inr (Render ''history.html'' rows) \<and>
         mset xs = mset (filter (\<lambda>t. user_id t = Some uid) (db w)) \<and>
         sorted_wrt (\<lambda>a b. created_at b \<le> created_at a) xs \<and>
         rows = take 50 xs \<and>
         length rows = min 50 (length (filter (\<lambda>t. user_id t = Some uid) (db w))) \<and>
         (\<forall>t \<in> set rows. t \<in> set (db w) \<and> user_id t = Some uid) \<and>
         sorted_wrt (\<lambda>a b. created_at b \<le> created_at a) rows \<and>
         (\<forall>t \<in> set (db w). user_id t = Some uid \<and> t \<notin> set rows \<longrightarrow>
            (\<forall>r \<in> set rows. created_at t \<le> created_at r))"
    using h m s len owned recent sorted_wrt_take [OF s, of 50]
    unfolding own_def
    by (intro exI [of _ "take 50 xs"] exI [of _ xs]) simp
qed

text \<open>
  A table of four rows, two of them of user 42: an anonymous caller is redirected, user
  42 sees both rows, the newer first, and a query that times out raises.
\<close>

theorem history_page_witness:
  "history (example_env hello timed_out timed_out (Inr None) None)
     \<lparr>db = example_rows, logs = [], net = []\<rparr> = Inr (Redirect ''replit_auth.login'') \<and>
   history (example_env hello timed_out timed_out (Inr (Some (u ''42''))) None)
     \<lparr>db = example_rows, logs = [], net = []\<rparr> =
     Inr (Render ''history.html'' [example_rows ! 2, example_rows ! 0]) \<and>
   history ((example_env hello timed_out timed_out (Inr (Some (u ''42''))) None)
              \<lparr>query_failure := Some (Exn Timeout (u ''statement timeout''))\<rparr>)
     \<lparr>db = example_rows, logs = [], net = []\<rparr> = Inl (Exn Timeout (u ''statement timeout''))"
  using
    history_page [of "example_env hello timed_out timed_out (Inr None) None"
      "\<lparr>db = example_rows, logs = [], net = []\<rparr>" "u ''42''"]
    history_page [of "example_env hello timed_out timed_out (Inr (Some (u ''42''))) None"
      "\<lparr>db = example_rows, logs = [], net = []\<rparr>" "u ''42''"]
    history_page [of "(example_env hello timed_out timed_out (Inr (Some (u ''42''))) None)
              \<lparr>query_failure := Some (Exn Timeout (u ''statement timeout''))\<rparr>"
      "\<lparr>db = example_rows, logs = [], net = []\<rparr>" "u ''42''"
      "Exn Timeout (u ''statement timeout'')"]
  by (simp add: history_def example_env_def example_rows_def u_def)

text \<open>
  \<^bold>\<open>C7\<close> as stated fails: user 42 is authenticated, the query raises, and the view
  returns no rows: the exception leaves it.
\<close>

theorem history_query_failure_counterexample:
  "current_user
     ((example_env hello timed_out timed_out (Inr (Some (u ''42''))) None)
        \<lparr>query_failure := Some storage_down\<rparr>) = Inr (Some (u ''42'')) \<and>
   history
     ((example_env hello timed_out timed_out (Inr (Some (u ''42''))) None)
        \<lparr>query_failure := Some storage_down\<rparr>)
     \<lparr>db = example_rows, logs = [], net = []\<rparr> = Inl storage_down"
  by (simp add: history_def example_env_def)

end
